theory Spec2Isabelle
  imports Complex_Main
begin

section \<open>The interactive session loop of the host program\<close>

text \<open>
  Every variant of the host (\<^verbatim>\<open>shader1-circles.cpp\<close>, \<^verbatim>\<open>shader5-45single.cpp\<close> and the
  others) declares the same locals in \<^verbatim>\<open>main\<close> and handles events with the same chain of
  independent \<^verbatim>\<open>if\<close> statements. The C++ \<^verbatim>\<open>float\<close> locals are modelled as real numbers, so
  \<^verbatim>\<open>1.1f\<close>, \<^verbatim>\<open>0.1f\<close>, \<^verbatim>\<open>0.01f\<close> and \<^verbatim>\<open>0.05f\<close> stand for the decimal fractions they
  approximate and no rounding takes place.

  The record holds the locals of \<^verbatim>\<open>main\<close> that the loop mutates: \<^verbatim>\<open>running\<close>, \<^verbatim>\<open>speed\<close>,
  \<^verbatim>\<open>warp\<close>, \<^verbatim>\<open>thickness\<close>, \<^verbatim>\<open>colorShift\<close>, \<^verbatim>\<open>w\<close>, \<^verbatim>\<open>h\<close>, and the viewport that
  \<^verbatim>\<open>glViewport\<close> sets in the GL context. The parameter fields carry the prefix \<open>cur_\<close>
  because the shader's uniforms of the same names are fields of another record below.
\<close>

record session =
  running :: bool
  cur_speed :: real
  cur_warp :: real
  cur_thickness :: real
  cur_colorShift :: real
  win_w :: int
  win_h :: int
  viewport :: "int \<times> int \<times> int \<times> int"

text \<open>
  The events that \<^verbatim>\<open>SDL_PollEvent\<close> delivers. The loop looks at three event types only;
  every other type is \<open>SDL_OTHEREVENT\<close>. A key-down event carries \<^verbatim>\<open>e.key.keysym.sym\<close>, a
  window event carries \<^verbatim>\<open>e.window.event\<close>, \<^verbatim>\<open>data1\<close> and \<^verbatim>\<open>data2\<close>.
\<close>

datatype sdl_event =
  SDL_QUIT
| SDL_KEYDOWN int
| SDL_WINDOWEVENT nat int int
| SDL_OTHEREVENT

text \<open>The key codes and the window event id, with the values of the SDL2 headers.\<close>

definition SDLK_ESCAPE :: int where "SDLK_ESCAPE = 27"
definition SDLK_UP :: int where "SDLK_UP = 1073741906"
definition SDLK_DOWN :: int where "SDLK_DOWN = 1073741905"
definition SDLK_LEFT :: int where "SDLK_LEFT = 1073741904"
definition SDLK_RIGHT :: int where "SDLK_RIGHT = 1073741903"
definition SDLK_z :: int where "SDLK_z = 122"
definition SDLK_x :: int where "SDLK_x = 120"
definition SDLK_c :: int where "SDLK_c = 99"
definition SDLK_v :: int where "SDLK_v = 118"
definition SDL_WINDOWEVENT_SIZE_CHANGED :: nat where "SDL_WINDOWEVENT_SIZE_CHANGED = 6"

text \<open>
  The body of \<^verbatim>\<open>if (e.type == SDL_KEYDOWN) { ... }\<close> is nine \<^verbatim>\<open>if\<close> statements, none of
  them an \<^verbatim>\<open>else\<close> branch of another, run one after the other on the same key code. Each
  statement is a function on the state, named after the key it tests, and the body is the
  nine of them applied in the order of the source.
\<close>

definition if_escape :: "int \<Rightarrow> session \<Rightarrow> session" where
  "if_escape key s = (if key = SDLK_ESCAPE then s\<lparr>running := False\<rparr> else s)"

definition if_up :: "int \<Rightarrow> session \<Rightarrow> session" where
  "if_up key s = (if key = SDLK_UP then s\<lparr>cur_speed := cur_speed s * 1.1\<rparr> else s)"

definition if_down :: "int \<Rightarrow> session \<Rightarrow> session" where
  "if_down key s = (if key = SDLK_DOWN then s\<lparr>cur_speed := cur_speed s / 1.1\<rparr> else s)"

definition if_left :: "int \<Rightarrow> session \<Rightarrow> session" where
  "if_left key s =
    (if key = SDLK_LEFT then s\<lparr>cur_warp := max 0.1 (cur_warp s - 0.1)\<rparr> else s)"

definition if_right :: "int \<Rightarrow> session \<Rightarrow> session" where
  "if_right key s = (if key = SDLK_RIGHT then s\<lparr>cur_warp := cur_warp s + 0.1\<rparr> else s)"

definition if_z :: "int \<Rightarrow> session \<Rightarrow> session" where
  "if_z key s =
    (if key = SDLK_z then s\<lparr>cur_thickness := max 0.01 (cur_thickness s - 0.01)\<rparr> else s)"

definition if_x :: "int \<Rightarrow> session \<Rightarrow> session" where
  "if_x key s = (if key = SDLK_x then s\<lparr>cur_thickness := cur_thickness s + 0.01\<rparr> else s)"

definition if_c :: "int \<Rightarrow> session \<Rightarrow> session" where
  "if_c key s = (if key = SDLK_c then s\<lparr>cur_colorShift := cur_colorShift s + 0.05\<rparr> else s)"

definition if_v :: "int \<Rightarrow> session \<Rightarrow> session" where
  "if_v key s = (if key = SDLK_v then s\<lparr>cur_colorShift := cur_colorShift s - 0.05\<rparr> else s)"

definition on_keydown :: "int \<Rightarrow> session \<Rightarrow> session" where
  "on_keydown key s =
    if_v key (if_c key (if_x key (if_z key (if_right key (if_left key
      (if_down key (if_up key (if_escape key s))))))))"

text \<open>One pass of the body of \<^verbatim>\<open>while (SDL_PollEvent(&e)) { ... }\<close>.\<close>

fun handle_event :: "session \<Rightarrow> sdl_event \<Rightarrow> session" where
  "handle_event s SDL_QUIT = s\<lparr>running := False\<rparr>"
| "handle_event s (SDL_KEYDOWN key) = on_keydown key s"
| "handle_event s (SDL_WINDOWEVENT ev data1 data2) =
    (if ev = SDL_WINDOWEVENT_SIZE_CHANGED
     then s\<lparr>win_w := data1, win_h := data2, viewport := (0, 0, data1, data2)\<rparr>
     else s)"
| "handle_event s SDL_OTHEREVENT = s"

text \<open>Draining the queue: the events are handled in the order in which they were queued.\<close>

definition poll_events :: "session \<Rightarrow> sdl_event list \<Rightarrow> session" where
  "poll_events s evs = foldl handle_event s evs"

text \<open>
  The state at the first test of \<^verbatim>\<open>while (running)\<close>: the window is created with
  \<^verbatim>\<open>w = 1280, h = 720\<close>, and the context's viewport starts as the window's size.
\<close>

definition initial_session :: session where
  "initial_session =
    \<lparr>running = True, cur_speed = 6.0, cur_warp = 1.0, cur_thickness = 0.18,
     cur_colorShift = 0.0, win_w = 1280, win_h = 720, viewport = (0, 0, 1280, 720)\<rparr>"

section \<open>The GLSL built-ins that the fragment shaders use\<close>

text \<open>
  GLSL \<^verbatim>\<open>float\<close> values are modelled as real numbers: the functions below are the defining
  formulas of the GLSL specification, computed exactly. A \<^verbatim>\<open>vec2\<close> is a pair and a
  \<^verbatim>\<open>vec3\<close> a triple. Names that HOL already uses carry a suffix.
\<close>

type_synonym vec2 = "real \<times> real"
type_synonym vec3 = "real \<times> real \<times> real"

definition floor_f :: "real \<Rightarrow> real" where
  "floor_f x = of_int \<lfloor>x\<rfloor>"

definition fract :: "real \<Rightarrow> real" where
  "fract x = x - floor_f x"

definition mod_f :: "real \<Rightarrow> real \<Rightarrow> real" where
  "mod_f x y = x - y * floor_f (x / y)"

definition clamp :: "real \<Rightarrow> real \<Rightarrow> real \<Rightarrow> real" where
  "clamp x lo hi = min (max x lo) hi"

definition mix :: "real \<Rightarrow> real \<Rightarrow> real \<Rightarrow> real" where
  "mix x y a = x * (1 - a) + y * a"

text \<open>
  \<^verbatim>\<open>smoothstep(edge0, edge1, x)\<close>: the shaders call it with \<open>edge0 > edge1\<close> as well
  (\<^verbatim>\<open>smoothstep(1.2, 0.2, length(p))\<close>), so the formula is taken as it stands; it divides by
  \<open>edge1 - edge0\<close>, and the callers below answer for \<open>edge0 = edge1\<close>.
\<close>

definition smoothstep :: "real \<Rightarrow> real \<Rightarrow> real \<Rightarrow> real" where
  "smoothstep edge0 edge1 x =
    (let t = clamp ((x - edge0) / (edge1 - edge0)) 0 1 in t * t * (3 - 2 * t))"

definition pow :: "real \<Rightarrow> real \<Rightarrow> real" where
  "pow x y = x powr y"

fun length2 :: "vec2 \<Rightarrow> real" where
  "length2 (x, y) = sqrt (x * x + y * y)"

fun length3 :: "vec3 \<Rightarrow> real" where
  "length3 (x, y, z) = sqrt (x * x + y * y + z * z)"

fun normalize3 :: "vec3 \<Rightarrow> vec3" where
  "normalize3 (x, y, z) =
    (x / length3 (x, y, z), y / length3 (x, y, z), z / length3 (x, y, z))"

text \<open>
  The two-argument \<^verbatim>\<open>atan(y, x)\<close>: the angle of the point \<open>(x, y)\<close> in \<open>(-\<pi>, \<pi>]\<close>. GLSL
  leaves the value at the origin undefined; the last branch only makes the function total,
  and the caller below answers for the origin before it calls.
\<close>

definition atan2 :: "real \<Rightarrow> real \<Rightarrow> real" where
  "atan2 y x =
    (if 0 < x then arctan (y / x)
     else if x < 0 then (if 0 \<le> y then arctan (y / x) + pi else arctan (y / x) - pi)
     else if 0 < y then pi / 2
     else if y < 0 then - (pi / 2)
     else 0)"

text \<open>
  What a fragment shader's \<^verbatim>\<open>main\<close> can run into besides a colour: a division whose divisor
  is zero, which GLSL leaves undefined (an infinity or a NaN under IEEE arithmetic), and
  \<^verbatim>\<open>atan(0, 0)\<close>, which GLSL leaves undefined as well.
\<close>

datatype glsl_fault = DivisionByZero | UndefinedAtan

text \<open>
  Where a shader is short enough to follow a division by zero to its output, the model
  computes with the values of IEEE arithmetic instead: a finite number, the two infinities
  and NaN. Only the operations of that shader are defined: the division of two finite
  numbers, and the product and the sum of such a value with a finite constant. The zero
  divisor is the positive zero that a uniform holds before it is first written.
\<close>

datatype xreal = Fin real | PInf | NInf | NaN

definition div_x :: "real \<Rightarrow> real \<Rightarrow> xreal" where
  "div_x a b =
    (if b \<noteq> 0 then Fin (a / b)
     else if a = 0 then NaN
     else if 0 < a then PInf
     else NInf)"

fun mul_x :: "xreal \<Rightarrow> real \<Rightarrow> xreal" where
  "mul_x (Fin a) c = Fin (a * c)"
| "mul_x PInf c = (if c = 0 then NaN else if 0 < c then PInf else NInf)"
| "mul_x NInf c = (if c = 0 then NaN else if 0 < c then NInf else PInf)"
| "mul_x NaN c = NaN"

fun add_x :: "xreal \<Rightarrow> real \<Rightarrow> xreal" where
  "add_x (Fin a) c = Fin (a + c)"
| "add_x PInf c = PInf"
| "add_x NInf c = NInf"
| "add_x NaN c = NaN"

text \<open>
  The uniforms of the fragment shaders of \<^verbatim>\<open>shader1-circles.cpp\<close> and of the second
  ray-marching variant. The shader functions take the record as an argument and accept any
  extension of it.
\<close>

record uniforms =
  iTime :: real
  iResolution :: vec2
  speed :: real
  warp :: real
  thickness :: real
  colorShift :: real

text \<open>
  \<^verbatim>\<open>for (int i = 0; i < n; i++) { s = body(s); if (brk(s)) break; }\<close>: the shape of both
  ray-march loops. The function returns the state after each iteration that ran, in order;
  the first argument counts the iterations that are left.
\<close>

fun for_loop :: "nat \<Rightarrow> ('s \<Rightarrow> 's) \<Rightarrow> ('s \<Rightarrow> bool) \<Rightarrow> 's \<Rightarrow> 's list" where
  "for_loop 0 body brk s = []"
| "for_loop (Suc n) body brk s =
    (let s' = body s in s' # (if brk s' then [] else for_loop n body brk s'))"

text \<open>The state with which the loop is left: that of the last iteration that ran.\<close>

definition loop_result :: "'s \<Rightarrow> 's list \<Rightarrow> 's" where
  "loop_result s0 states = last (s0 # states)"

section \<open>The fragment shader of shader1-circles.cpp\<close>

fun hash21 :: "vec2 \<Rightarrow> real" where
  "hash21 (px, py) =
    (let qx = fract (px * 123.34);
         qy = fract (py * 456.21);
         d = qx * (qx + 45.32) + qy * (qy + 45.32)
     in fract ((qx + d) * (qy + d)))"

fun noise :: "vec2 \<Rightarrow> real" where
  "noise (px, py) =
    (let ix = floor_f px; iy = floor_f py;
         fx0 = fract px; fy0 = fract py;
         fx = fx0 * fx0 * (3.0 - 2.0 * fx0);
         fy = fy0 * fy0 * (3.0 - 2.0 * fy0);
         a = hash21 (ix, iy);
         b = hash21 (ix + 1.0, iy + 0.0);
         c = hash21 (ix + 0.0, iy + 1.0);
         d = hash21 (ix + 1.0, iy + 1.0)
     in mix (mix a b fx) (mix c d fx) fy)"

definition palette :: "'a uniforms_scheme \<Rightarrow> real \<Rightarrow> vec3" where
  "palette u t =
    (0.5 + 0.5 * sin (6.28318 * (t + 0.00 + colorShift u)),
     0.5 + 0.5 * sin (6.28318 * (t + 0.33 + colorShift u)),
     0.5 + 0.5 * sin (6.28318 * (t + 0.66 + colorShift u)))"

fun tunnelSDF :: "'a uniforms_scheme \<Rightarrow> vec3 \<Rightarrow> real" where
  "tunnelSDF u (px, py, pz) =
    (let r = length2 (px, py);
         wave = 0.3 * sin (6.0 * pz + 2.0 * sin (3.0 * pz + iTime u * 0.6));
         rings = 0.2 * sin (40.0 * (r + 0.5 * sin (2.0 * pz + iTime u)));
         radius = 1.0 + wave + rings
     in r - radius)"

text \<open>
  The body of the ray-march loop up to the \<^verbatim>\<open>break\<close> test, on the loop's variables
  \<open>(t, glow, accum)\<close>; \<open>ro\<close> and \<open>rd\<close> are the ray's origin and direction.
\<close>

definition march_step ::
  "'a uniforms_scheme \<Rightarrow> vec3 \<Rightarrow> vec3 \<Rightarrow> real \<times> real \<times> real \<Rightarrow> real \<times> real \<times> real" where
  "march_step u ro rd st =
    (case (ro, rd, st) of ((rox, roy, roz), (rdx, rdy, rdz), (t, glow, accum)) \<Rightarrow>
     let posx = rox + rdx * t; posy = roy + rdy * t; posz = roz + rdz * t;
         zWrapped = mod_f posz 12.566370;
         d = tunnelSDF u (posx, posy, zWrapped);
         hit = exp (- 20.0 * \<bar>d\<bar>);
         n = noise (posx * 1.3 + iTime u * 0.5, posy * 1.3 - iTime u * 0.3);
         layer = 0.5 + 0.5 * sin (8.0 * posz + 3.0 * n + iTime u * 2.0)
     in (t + max 0.02 (0.5 * \<bar>d\<bar>),
         glow + hit * (1.0 - smoothstep 0.0 (thickness u) \<bar>d\<bar>),
         accum + hit * layer))"

definition march :: "'a uniforms_scheme \<Rightarrow> vec3 \<Rightarrow> vec3 \<Rightarrow> (real \<times> real \<times> real) list" where
  "march u ro rd = for_loop 120 (march_step u ro rd) (\<lambda>(t, glow, accum). t > 100.0) (0.0, 0.0, 0.0)"

text \<open>The first two statements of \<^verbatim>\<open>main\<close>: the aspect-corrected coordinate of the fragment.\<close>

fun screen_point :: "'a uniforms_scheme \<Rightarrow> vec2 \<Rightarrow> vec2" where
  "screen_point u (uvx, uvy) =
    ((uvx * 2.0 - 1.0) * (fst (iResolution u) / snd (iResolution u)), uvy * 2.0 - 1.0)"

text \<open>The camera ray: origin and direction.\<close>

definition ray_origin :: "'a uniforms_scheme \<Rightarrow> vec3" where
  "ray_origin u = (0.0, 0.0, iTime u * speed u)"

fun ray_direction :: "'a uniforms_scheme \<Rightarrow> vec2 \<Rightarrow> vec3" where
  "ray_direction u (px, py) = normalize3 (px, py, - 1.5 + 0.3 * sin (iTime u * 0.2))"

definition depth_of :: "real \<Rightarrow> real" where
  "depth_of t = clamp (exp (- 0.02 * t)) 0.0 1.0"

text \<open>
  The statements of \<^verbatim>\<open>main\<close> after the loop and before the gamma curve: the colour composed
  from the point \<open>p\<close> and the loop's final \<open>(t, glow, accum)\<close>.
\<close>

definition compose_colour ::
  "'a uniforms_scheme \<Rightarrow> vec2 \<Rightarrow> real \<times> real \<times> real \<Rightarrow> vec3" where
  "compose_colour u p st =
    (case (p, st) of ((px, py), (t, glow, accum)) \<Rightarrow>
     let depth = depth_of t;
         intensity = clamp (accum * 0.6 + glow * 0.8) 0.0 2.5;
         palettePos = fract ((iTime u * 0.1 * warp u) + (t * 0.02) + accum * 0.1);
         veins = 0.5 + 0.5 * sin (20.0 * length2 (px, py) - iTime u * 2.5
                                  + noise (px * 10.0, py * 10.0));
         vig = smoothstep 1.2 0.2 (length2 (px, py))
     in case (palette u palettePos, palette u (palettePos + 0.2)) of
          ((pr, pg, pb), (qr, qg, qb)) \<Rightarrow>
            (mix 0.02 ((pr * intensity + 0.15 * qr * veins) * vig) depth,
             mix 0.02 ((pg * intensity + 0.15 * qg * veins) * vig) depth,
             mix 0.03 ((pb * intensity + 0.15 * qb * veins) * vig) depth))"

text \<open>The last statement but one: \<^verbatim>\<open>col = pow(clamp(col, 0.0, 1.0), vec3(0.8))\<close>.\<close>

fun gamma :: "vec3 \<Rightarrow> vec3" where
  "gamma (r, g, b) = (pow (clamp r 0.0 1.0) 0.8, pow (clamp g 0.0 1.0) 0.8, pow (clamp b 0.0 1.0) 0.8)"

text \<open>
  The loop's final \<open>(t, glow, accum)\<close> for a fragment, and the depth factor that \<^verbatim>\<open>main\<close>
  derives from it (\<^verbatim>\<open>float depth = clamp(exp(-0.02 * t), 0.0, 1.0)\<close>).
\<close>

definition march_result :: "'a uniforms_scheme \<Rightarrow> vec2 \<Rightarrow> real \<times> real \<times> real" where
  "march_result u uv =
    loop_result (0.0, 0.0, 0.0)
      (march u (ray_origin u) (ray_direction u (screen_point u uv)))"

definition depth_circles :: "'a uniforms_scheme \<Rightarrow> vec2 \<Rightarrow> real" where
  "depth_circles u uv = depth_of (fst (march_result u uv))"

text \<open>
  \<^verbatim>\<open>main\<close>, as a function of the uniforms and of the interpolated \<^verbatim>\<open>uv\<close>. It divides by
  \<^verbatim>\<open>iResolution.y\<close> in its second statement, and by \<^verbatim>\<open>thicknessLocal\<close> in the
  \<^verbatim>\<open>smoothstep\<close> of the loop's first iteration, which always runs; neither division has a
  guard in the source.
\<close>

definition main_circles :: "'a uniforms_scheme \<Rightarrow> vec2 \<Rightarrow> glsl_fault + vec3" where
  "main_circles u uv =
    (if snd (iResolution u) = 0 then Inl DivisionByZero
     else if thickness u = 0 then Inl DivisionByZero
     else
       Inr (gamma (compose_colour u (screen_point u uv) (march_result u uv))))"

text \<open>The parameter values with which the host starts, at time \<open>0\<close> and at the window's first size.\<close>

definition default_uniforms :: uniforms where
  "default_uniforms =
    \<lparr>iTime = 0.0, iResolution = (1280.0, 720.0), speed = 6.0, warp = 1.0,
     thickness = 0.18, colorShift = 0.0\<rparr>"

text \<open>
  Where \<^verbatim>\<open>uv\<close> comes from. The vertex shader sets \<^verbatim>\<open>uv = inPos * 0.5 + 0.5\<close>; the
  rasteriser interpolates it over the viewport \<^verbatim>\<open>(0, 0, w, h)\<close>, where the window coordinate
  \<open>(x, y)\<close> has the normalised device coordinate \<open>(2x/w - 1, 2y/h - 1)\<close>.
\<close>

definition vertex_uv :: "vec2 \<Rightarrow> vec2" where
  "vertex_uv inPos = (fst inPos * 0.5 + 0.5, snd inPos * 0.5 + 0.5)"

definition ndc_of_window :: "vec2 \<Rightarrow> vec2 \<Rightarrow> vec2" where
  "ndc_of_window res xy = (2 * fst xy / fst res - 1, 2 * snd xy / snd res - 1)"

definition uv_at :: "vec2 \<Rightarrow> vec2 \<Rightarrow> vec2" where
  "uv_at res xy = vertex_uv (ndc_of_window res xy)"

section \<open>The ray-march loop of the second ray-marching variant\<close>

text \<open>
  The variant with one accumulator per colour channel has the same \<^verbatim>\<open>hash21\<close>,
  \<^verbatim>\<open>noise\<close> and \<^verbatim>\<open>palette\<close>; its \<^verbatim>\<open>tunnelSDF\<close> and its loop have other constants. The
  loop's variables are \<open>(t, accumR, accumG, accumB, glow)\<close>.
\<close>

fun tunnelSDF_chroma :: "'a uniforms_scheme \<Rightarrow> vec3 \<Rightarrow> real" where
  "tunnelSDF_chroma u (px, py, pz) =
    (let r = length2 (px, py);
         wave = 0.35 * sin (6.0 * pz + 2.0 * sin (3.0 * pz + iTime u * 0.6));
         rings = 0.22 * sin (40.0 * (r + 0.6 * sin (2.0 * pz + iTime u)));
         radius = 1.0 + wave + rings
     in r - radius)"

definition march_step_chroma ::
  "'a uniforms_scheme \<Rightarrow> vec3 \<Rightarrow> vec3 \<Rightarrow> real \<times> real \<times> real \<times> real \<times> real
     \<Rightarrow> real \<times> real \<times> real \<times> real \<times> real" where
  "march_step_chroma u ro rd st =
    (case (ro, rd, st) of
       ((rox, roy, roz), (rdx, rdy, rdz), (t, accumR, accumG, accumB, glow)) \<Rightarrow>
     let posx = rox + rdx * t; posy = roy + rdy * t; posz = roz + rdz * t;
         zWrapped = mod_f (posz + 10.0 * sin (iTime u * 0.15 + posx * 0.07)) 12.566370;
         d = tunnelSDF_chroma u (posx, posy, zWrapped);
         hit = exp (- 24.0 * \<bar>d\<bar>);
         n = noise (posx * 1.6 + iTime u * 0.6, posy * 1.6 - iTime u * 0.4);
         layerBase = 0.5 + 0.5 * sin (10.0 * posz + 4.0 * n + iTime u * 3.0);
         pulse = 0.6 + 0.4 * sin (posz * 3.0 + iTime u * 4.0 + n * 6.0);
         lr = layerBase * (1.0 + 0.2 * sin (iTime u * 2.3 + posz * 2.0 + n * 3.0));
         lg = layerBase * (1.0 + 0.2 * sin (iTime u * 2.7 + posz * 2.2 + n * 2.5));
         lb = layerBase * (1.0 + 0.2 * sin (iTime u * 3.1 + posz * 2.4 + n * 2.0))
     in (t + max 0.015 (0.45 * \<bar>d\<bar>),
         accumR + hit * lr * pulse,
         accumG + hit * lg * pulse,
         accumB + hit * lb * pulse,
         glow + hit * (1.0 - smoothstep 0.0 (thickness u) \<bar>d\<bar>)))"

definition march_chroma ::
  "'a uniforms_scheme \<Rightarrow> vec3 \<Rightarrow> vec3 \<Rightarrow> (real \<times> real \<times> real \<times> real \<times> real) list" where
  "march_chroma u ro rd =
    for_loop 140 (march_step_chroma u ro rd) (\<lambda>(t, accumR, accumG, accumB, glow). t > 200.0)
      (0.0, 0.0, 0.0, 0.0, 0.0)"

section \<open>The resolution guard of shader5-45single.cpp\<close>

text \<open>
  The source's comment on this function: \<^verbatim>\<open>Fallback to 1280x720 if uniforms are zero to
  avoid NaNs/black\<close>. The shader's \<^verbatim>\<open>main\<close> divides by \<^verbatim>\<open>res.y\<close> only after it.
\<close>

definition safeResolution :: "vec2 \<Rightarrow> vec2" where
  "safeResolution res = (if fst res \<le> 0.0 \<or> snd res \<le> 0.0 then (1280.0, 720.0) else res)"

section \<open>The fragment shader of shader3-tunnel-DEV-NOT-WORKING.cpp\<close>

text \<open>
  This shader's uniforms are \<^verbatim>\<open>uResolution\<close> and \<^verbatim>\<open>uTime\<close>. Its \<^verbatim>\<open>main\<close> computes a colour
  \<^verbatim>\<open>col\<close> from the path functions and then writes
  \<^verbatim>\<open>FragColor = vec4(p*0.5+0.5, 0.0, 1.0)\<close>: the output depends on \<open>p\<close> alone, and the
  model leaves out the statements whose result is never written. The first statement
  divides by \<^verbatim>\<open>uResolution.y\<close> with no guard.
\<close>

definition main_dev_tunnel :: "vec2 \<Rightarrow> real \<Rightarrow> vec2 \<Rightarrow> xreal \<times> xreal \<times> xreal" where
  "main_dev_tunnel uResolution uTime fragCoord =
    (let px = div_x (fst fragCoord * 2.0 - fst uResolution) (snd uResolution);
         py = div_x (snd fragCoord * 2.0 - snd uResolution) (snd uResolution)
     in (add_x (mul_x px 0.5) 0.5, add_x (mul_x py 0.5) 0.5, Fin 0.0))"

section \<open>The fragment shader of the plain polar variant\<close>

text \<open>
  The shortest variant declares the uniforms \<^verbatim>\<open>iResolution\<close> and \<^verbatim>\<open>iTime\<close> only, and its
  \<^verbatim>\<open>main\<close> writes the colour \<^verbatim>\<open>vec3(0.5+0.5*v, 0.3+0.3*v, 0.8-0.5*v)\<close> as it is, with no
  clamp. \<open>polar_colour\<close> is the computation; \<open>main_polar\<close> puts before it the two cases in
  which GLSL leaves it undefined, the zero divisor and the fragment with \<open>p = (0, 0)\<close>.
\<close>

definition polar_colour :: "vec2 \<Rightarrow> real \<Rightarrow> vec2 \<Rightarrow> vec3" where
  "polar_colour res time fragCoord =
    (let px = (fst fragCoord * 2.0 - fst res) / snd res;
         py = (snd fragCoord * 2.0 - snd res) / snd res;
         r = length2 (px, py);
         a = atan2 py px;
         z = time * 2.0;
         rings = sin (10.0 * r - z);
         stripes = sin (6.0 * a + z);
         v = rings * stripes
     in (0.5 + 0.5 * v, 0.3 + 0.3 * v, 0.8 - 0.5 * v))"

definition main_polar :: "vec2 \<Rightarrow> real \<Rightarrow> vec2 \<Rightarrow> glsl_fault + vec3" where
  "main_polar res time fragCoord =
    (if snd res = 0 then Inl DivisionByZero
     else if fst fragCoord * 2.0 = fst res \<and> snd fragCoord * 2.0 = snd res
       then Inl UndefinedAtan
     else Inr (polar_colour res time fragCoord))"

text \<open>A result of \<^verbatim>\<open>main\<close> that is a colour with every channel in \<open>[0, 1]\<close>.\<close>

definition valid_colour :: "glsl_fault + vec3 \<Rightarrow> bool" where
  "valid_colour res =
    (case res of
       Inl f \<Rightarrow> False
     | Inr (r, g, b) \<Rightarrow> 0 \<le> r \<and> r \<le> 1 \<and> 0 \<le> g \<and> g \<le> 1 \<and> 0 \<le> b \<and> b \<le> 1)"

section \<open>Start-up of the host program and its frame loop\<close>

text \<open>
  What \<^verbatim>\<open>main\<close> meets on its way to the loop, as far as its control flow depends on it: the
  results of the SDL and GLAD initialisation calls, and for the GL objects their names,
  their compile and link status and their info logs. \<open>active_uniforms\<close> lists the active
  uniforms of the linked program with their locations.
\<close>

datatype shader_type = GL_VERTEX_SHADER | GL_FRAGMENT_SHADER

record gl_env =
  sdl_init_ok :: bool
  sdl_error :: string
  window_ok :: bool
  context_ok :: bool
  glad_ok :: bool
  shader_name :: "shader_type \<Rightarrow> nat"
  compile_status :: "shader_type \<Rightarrow> bool"
  shader_info_log :: "shader_type \<Rightarrow> string"
  program_name :: nat
  link_status :: bool
  program_info_log :: string
  active_uniforms :: "(string \<times> int) list"

text \<open>
  OpenGL's guarantee about names: an object that compiled or linked has a name other than
  zero (\<^verbatim>\<open>glCreateShader\<close> and \<^verbatim>\<open>glCreateProgram\<close> return zero only on failure).
\<close>

definition gl_names_nonzero :: "gl_env \<Rightarrow> bool" where
  "gl_names_nonzero env =
    ((compile_status env GL_VERTEX_SHADER \<longrightarrow> shader_name env GL_VERTEX_SHADER \<noteq> 0) \<and>
     (compile_status env GL_FRAGMENT_SHADER \<longrightarrow> shader_name env GL_FRAGMENT_SHADER \<noteq> 0) \<and>
     (link_status env \<longrightarrow> program_name env \<noteq> 0))"

text \<open>
  \<^verbatim>\<open>compileShader\<close> and \<^verbatim>\<open>linkProgram\<close> return what they wrote to \<^verbatim>\<open>std::cerr\<close> and the
  object's name, which is \<open>0\<close> after a failure. The info log is read into
  \<^verbatim>\<open>char buf[4096]\<close>, so at most its first 4095 characters are written.
\<close>

definition compileShader :: "gl_env \<Rightarrow> shader_type \<Rightarrow> string list \<times> nat" where
  "compileShader env ty =
    (if \<not> compile_status env ty
     then ([''Shader compile error: '' @ take 4095 (shader_info_log env ty) @ ''\<newline>''], 0)
     else ([], shader_name env ty))"

definition linkProgram :: "gl_env \<Rightarrow> nat \<Rightarrow> nat \<Rightarrow> string list \<times> nat" where
  "linkProgram env v f =
    (if \<not> link_status env
     then ([''Program link error: '' @ take 4095 (program_info_log env) @ ''\<newline>''], 0)
     else ([], program_name env))"

text \<open>\<^verbatim>\<open>glGetUniformLocation\<close>: \<open>-1\<close> for a name that is not an active uniform.\<close>

definition glGetUniformLocation :: "gl_env \<Rightarrow> string \<Rightarrow> int" where
  "glGetUniformLocation env name =
    (case map_of (active_uniforms env) name of Some loc \<Rightarrow> loc | None \<Rightarrow> - 1)"

record locations =
  locTime :: int
  locRes :: int
  locSpeed :: int
  locWarp :: int
  locThickness :: int
  locColorShift :: int

text \<open>
  \<^verbatim>\<open>main\<close> up to the loop: the text written to \<^verbatim>\<open>std::cerr\<close>, and either the value that
  \<^verbatim>\<open>main\<close> returns at once or the six locations with which it enters the loop. The
  locations are looked up and not tested.
\<close>

definition startup :: "gl_env \<Rightarrow> string list \<times> (int + locations)" where
  "startup env =
    (if \<not> sdl_init_ok env then ([''SDL_Init failed: '' @ sdl_error env @ ''\<newline>''], Inl 1)
     else if \<not> window_ok env then ([''CreateWindow failed\<newline>''], Inl 1)
     else if \<not> context_ok env then ([''CreateContext failed\<newline>''], Inl 1)
     else if \<not> glad_ok env then ([''Failed to initialize GLAD\<newline>''], Inl 1)
     else
       case (compileShader env GL_VERTEX_SHADER, compileShader env GL_FRAGMENT_SHADER) of
         ((err_v, vs), (err_f, fs)) \<Rightarrow>
           if vs = 0 \<or> fs = 0 then (err_v @ err_f, Inl 1)
           else
             case linkProgram env vs fs of
               (err_p, prog) \<Rightarrow>
                 if prog = 0 then (err_v @ err_f @ err_p, Inl 1)
                 else
                   (err_v @ err_f @ err_p,
                    Inr \<lparr>locTime = glGetUniformLocation env ''iTime'',
                         locRes = glGetUniformLocation env ''iResolution'',
                         locSpeed = glGetUniformLocation env ''speed'',
                         locWarp = glGetUniformLocation env ''warp'',
                         locThickness = glGetUniformLocation env ''thickness'',
                         locColorShift = glGetUniformLocation env ''colorShift''\<rparr>))"

text \<open>
  One frame: the six \<^verbatim>\<open>glUniform\<close> calls followed by the draw call. A \<^verbatim>\<open>glUniform\<close> call
  with location \<open>-1\<close> is ignored by OpenGL, so a frame is the list of the uploads that
  reach the program, each a location with the values written there.
\<close>

type_synonym frame = "(int \<times> real list) list"

definition dispatch :: "locations \<Rightarrow> session \<Rightarrow> real \<Rightarrow> frame" where
  "dispatch locs s t =
    filter (\<lambda>(loc, vals). loc \<noteq> - 1)
      [(locTime locs, [t]),
       (locRes locs, [real_of_int (win_w s), real_of_int (win_h s)]),
       (locSpeed locs, [cur_speed s]),
       (locWarp locs, [cur_warp s]),
       (locThickness locs, [cur_thickness s]),
       (locColorShift locs, [cur_colorShift s])]"

text \<open>
  \<^verbatim>\<open>while (running) { ... }\<close>. The loop runs for as long as the program is not told to
  quit, so its input is the list of its iterations as far as they are observed: for each one
  the events found in the queue and the clock's reading in seconds since the start. An
  iteration drains the queue and then draws one frame, also when an event of this very
  iteration cleared \<^verbatim>\<open>running\<close>.
\<close>

fun session_loop ::
  "locations \<Rightarrow> session \<Rightarrow> (sdl_event list \<times> real) list \<Rightarrow> frame list \<times> session" where
  "session_loop locs s [] = ([], s)"
| "session_loop locs s ((evs, t) # rest) =
    (if running s
     then (case session_loop locs (poll_events s evs) rest of
             (fs, s') \<Rightarrow> (dispatch locs (poll_events s evs) t # fs, s'))
     else ([], s))"

record run =
  stderr :: "string list"
  exit_code :: "int option"
  frames :: "frame list"

text \<open>
  The whole of \<^verbatim>\<open>main\<close>. The exit code is \<open>None\<close> while the loop is still running at the end
  of the observed iterations.
\<close>

definition run_main :: "gl_env \<Rightarrow> (sdl_event list \<times> real) list \<Rightarrow> run" where
  "run_main env input =
    (case startup env of
       (err, Inl code) \<Rightarrow> \<lparr>stderr = err, exit_code = Some code, frames = []\<rparr>
     | (err, Inr locs) \<Rightarrow>
         (case session_loop locs initial_session input of
            (fs, s) \<Rightarrow>
              \<lparr>stderr = err, exit_code = (if running s then None else Some 0), frames = fs\<rparr>))"

text \<open>
  Two environments in which everything succeeds. In the first the program has the six
  uniforms that the host looks up; in the second it has those of
  \<^verbatim>\<open>shader3-tunnel-DEV-NOT-WORKING.cpp\<close>, whose shader declares \<^verbatim>\<open>uResolution\<close> and
  \<^verbatim>\<open>uTime\<close> while the host asks for \<^verbatim>\<open>iTime\<close>, \<^verbatim>\<open>iResolution\<close> and the four parameters.
\<close>

definition working_env :: gl_env where
  "working_env =
    \<lparr>sdl_init_ok = True, sdl_error = [], window_ok = True, context_ok = True, glad_ok = True,
     shader_name = (\<lambda>ty. case ty of GL_VERTEX_SHADER \<Rightarrow> 1 | GL_FRAGMENT_SHADER \<Rightarrow> 2),
     compile_status = (\<lambda>ty. True), shader_info_log = (\<lambda>ty. []),
     program_name = 3, link_status = True, program_info_log = [],
     active_uniforms = [(''iTime'', 0), (''iResolution'', 1), (''speed'', 2), (''warp'', 3),
                        (''thickness'', 4), (''colorShift'', 5)]\<rparr>"

definition dev_tunnel_env :: gl_env where
  "dev_tunnel_env = working_env\<lparr>active_uniforms := [(''uResolution'', 0), (''uTime'', 1)]\<rparr>"

definition broken_shader_env :: gl_env where
  "broken_shader_env =
    working_env\<lparr>compile_status := (\<lambda>ty. ty = GL_VERTEX_SHADER),
                shader_info_log := (\<lambda>ty. ''0:1: syntax error'')\<rparr>"

text \<open>
  The environment of the plain polar variant: its program has the two uniforms that its
  shader declares, both of them among the names that the host looks up.
\<close>

definition polar_env :: gl_env where
  "polar_env = working_env\<lparr>active_uniforms := [(''iResolution'', 0), (''iTime'', 1)]\<rparr>"

section \<open>From the frames of the host to the colours of a fragment\<close>

text \<open>
  A program's uniforms are zero once it is linked, and a uniform keeps its value until a
  \<^verbatim>\<open>glUniform\<close> call writes its location. The two functions give the value of a
  \<^verbatim>\<open>vec2\<close> and of a \<^verbatim>\<open>float\<close> uniform after the uploads of one frame; a later upload to
  the same location wins.
\<close>

definition uniform2_after :: "frame \<Rightarrow> int \<Rightarrow> vec2 \<Rightarrow> vec2" where
  "uniform2_after f loc old =
    (case map_of (rev f) loc of Some [x, y] \<Rightarrow> (x, y) | _ \<Rightarrow> old)"

definition uniform1_after :: "frame \<Rightarrow> int \<Rightarrow> real \<Rightarrow> real" where
  "uniform1_after f loc old =
    (case map_of (rev f) loc of Some [x] \<Rightarrow> x | _ \<Rightarrow> old)"

text \<open>
  The draw calls of a run, for a shader whose \<^verbatim>\<open>main\<close> reads a resolution and a time
  uniform at the locations \<open>locR\<close> and \<open>locT\<close>: what \<^verbatim>\<open>main\<close> returns for one fragment in
  each frame, the uniforms being carried from frame to frame.
\<close>

fun draw ::
  "(vec2 \<Rightarrow> real \<Rightarrow> vec2 \<Rightarrow> 'c) \<Rightarrow> int \<Rightarrow> int \<Rightarrow> vec2 \<Rightarrow> real \<Rightarrow> frame list \<Rightarrow> vec2 \<Rightarrow> 'c list" where
  "draw shader locR locT res time [] fragCoord = []"
| "draw shader locR locT res time (f # fs) fragCoord =
    shader (uniform2_after f locR res) (uniform1_after f locT time) fragCoord #
    draw shader locR locT (uniform2_after f locR res) (uniform1_after f locT time) fs fragCoord"

text \<open>
  The colours that one fragment gets in the frames of a whole run of each of the two
  programs, from the host's start to the end of the observed iterations.
\<close>

definition run_dev_tunnel ::
  "(sdl_event list \<times> real) list \<Rightarrow> vec2 \<Rightarrow> (xreal \<times> xreal \<times> xreal) list" where
  "run_dev_tunnel input fragCoord =
    draw main_dev_tunnel
      (glGetUniformLocation dev_tunnel_env ''uResolution'')
      (glGetUniformLocation dev_tunnel_env ''uTime'')
      (0, 0) 0 (frames (run_main dev_tunnel_env input)) fragCoord"

definition run_polar ::
  "(sdl_event list \<times> real) list \<Rightarrow> vec2 \<Rightarrow> (glsl_fault + vec3) list" where
  "run_polar input fragCoord =
    draw main_polar
      (glGetUniformLocation polar_env ''iResolution'')
      (glGetUniformLocation polar_env ''iTime'')
      (0, 0) 0 (frames (run_main polar_env input)) fragCoord"

section \<open>Properties of the session loop\<close>

lemmas keycode_defs =
  SDLK_ESCAPE_def SDLK_UP_def SDLK_DOWN_def SDLK_LEFT_def SDLK_RIGHT_def
  SDLK_z_def SDLK_x_def SDLK_c_def SDLK_v_def

lemmas key_stmt_defs =
  if_escape_def if_up_def if_down_def if_left_def if_right_def
  if_z_def if_x_def if_c_def if_v_def

text \<open>What each statement does to the three clamped fields.\<close>

lemma warp_untouched:
  "cur_warp (if_escape key s) = cur_warp s" "cur_warp (if_up key s) = cur_warp s"
  "cur_warp (if_down key s) = cur_warp s" "cur_warp (if_z key s) = cur_warp s"
  "cur_warp (if_x key s) = cur_warp s" "cur_warp (if_c key s) = cur_warp s"
  "cur_warp (if_v key s) = cur_warp s"
  by (simp_all add: key_stmt_defs)

lemma thickness_untouched:
  "cur_thickness (if_escape key s) = cur_thickness s"
  "cur_thickness (if_up key s) = cur_thickness s"
  "cur_thickness (if_down key s) = cur_thickness s"
  "cur_thickness (if_left key s) = cur_thickness s"
  "cur_thickness (if_right key s) = cur_thickness s"
  "cur_thickness (if_c key s) = cur_thickness s"
  "cur_thickness (if_v key s) = cur_thickness s"
  by (simp_all add: key_stmt_defs)

lemma speed_untouched:
  "cur_speed (if_escape key s) = cur_speed s" "cur_speed (if_left key s) = cur_speed s"
  "cur_speed (if_right key s) = cur_speed s" "cur_speed (if_z key s) = cur_speed s"
  "cur_speed (if_x key s) = cur_speed s" "cur_speed (if_c key s) = cur_speed s"
  "cur_speed (if_v key s) = cur_speed s"
  by (simp_all add: key_stmt_defs)

lemma if_left_floor: "0.1 \<le> cur_warp s \<Longrightarrow> 0.1 \<le> cur_warp (if_left key s)"
  using max.cobounded1 [of "0.1::real" "cur_warp s - 0.1"] by (simp add: if_left_def max_def)

lemma if_right_floor: "0.1 \<le> cur_warp s \<Longrightarrow> 0.1 \<le> cur_warp (if_right key s)"
  by (simp add: if_right_def)

lemma if_z_floor: "0.01 \<le> cur_thickness s \<Longrightarrow> 0.01 \<le> cur_thickness (if_z key s)"
  using max.cobounded1 [of "0.01::real" "cur_thickness s - 0.01"] by (simp add: if_z_def max_def)

lemma if_x_floor: "0.01 \<le> cur_thickness s \<Longrightarrow> 0.01 \<le> cur_thickness (if_x key s)"
  by (simp add: if_x_def)

lemma if_up_pos: "0 < cur_speed s \<Longrightarrow> 0 < cur_speed (if_up key s)"
  by (simp add: if_up_def)

lemma if_down_pos: "0 < cur_speed s \<Longrightarrow> 0 < cur_speed (if_down key s)"
  by (simp add: if_down_def)

lemma on_keydown_warp_floor:
  assumes "0.1 \<le> cur_warp s"
  shows "0.1 \<le> cur_warp (on_keydown key s)"
proof -
  have "0.1 \<le> cur_warp (if_down key (if_up key (if_escape key s)))"
    using assms by (simp only: warp_untouched)
  then have "0.1 \<le> cur_warp (if_left key (if_down key (if_up key (if_escape key s))))"
    by (rule if_left_floor)
  then have "0.1 \<le> cur_warp (if_right key (if_left key (if_down key (if_up key
      (if_escape key s)))))"
    by (rule if_right_floor)
  then show ?thesis
    by (simp only: on_keydown_def warp_untouched)
qed

lemma on_keydown_thickness_floor:
  assumes "0.01 \<le> cur_thickness s"
  shows "0.01 \<le> cur_thickness (on_keydown key s)"
proof -
  have "0.01 \<le> cur_thickness (if_right key (if_left key (if_down key (if_up key
      (if_escape key s)))))"
    using assms by (simp only: thickness_untouched)
  then have "0.01 \<le> cur_thickness (if_z key (if_right key (if_left key (if_down key
      (if_up key (if_escape key s))))))"
    by (rule if_z_floor)
  then have "0.01 \<le> cur_thickness (if_x key (if_z key (if_right key (if_left key
      (if_down key (if_up key (if_escape key s)))))))"
    by (rule if_x_floor)
  then show ?thesis
    by (simp only: on_keydown_def thickness_untouched)
qed

lemma on_keydown_speed_pos:
  assumes "0 < cur_speed s"
  shows "0 < cur_speed (on_keydown key s)"
proof -
  have "0 < cur_speed (if_escape key s)"
    using assms by (simp only: speed_untouched)
  then have "0 < cur_speed (if_down key (if_up key (if_escape key s)))"
    by (intro if_down_pos if_up_pos)
  then show ?thesis
    by (simp only: on_keydown_def speed_untouched)
qed

lemma handle_event_floors:
  assumes "0.1 \<le> cur_warp s \<and> 0.01 \<le> cur_thickness s"
  shows "0.1 \<le> cur_warp (handle_event s e) \<and> 0.01 \<le> cur_thickness (handle_event s e)"
proof (cases e)
  case (SDL_KEYDOWN key)
  from assms have "0.1 \<le> cur_warp (on_keydown key s)"
    by (intro on_keydown_warp_floor) simp
  moreover from assms have "0.01 \<le> cur_thickness (on_keydown key s)"
    by (intro on_keydown_thickness_floor) simp
  ultimately show ?thesis using SDL_KEYDOWN by simp
qed (use assms in simp_all)

lemma handle_event_speed_pos:
  assumes "0 < cur_speed s"
  shows "0 < cur_speed (handle_event s e)"
proof (cases e)
  case (SDL_KEYDOWN key)
  from assms have "0 < cur_speed (on_keydown key s)"
    by (rule on_keydown_speed_pos)
  with SDL_KEYDOWN show ?thesis by simp
qed (use assms in simp_all)

lemma poll_events_floors:
  "0.1 \<le> cur_warp s \<and> 0.01 \<le> cur_thickness s \<Longrightarrow>
   0.1 \<le> cur_warp (poll_events s evs) \<and> 0.01 \<le> cur_thickness (poll_events s evs)"
  unfolding poll_events_def
proof (induction evs arbitrary: s)
  case Nil
  then show ?case by simp
next
  case (Cons e evs)
  from Cons.prems have "0.1 \<le> cur_warp (handle_event s e) \<and>
      0.01 \<le> cur_thickness (handle_event s e)"
    by (rule handle_event_floors)
  then show ?case using Cons.IH by simp
qed

lemma poll_events_speed_pos:
  "0 < cur_speed s \<Longrightarrow> 0 < cur_speed (poll_events s evs)"
  unfolding poll_events_def
  by (induction evs arbitrary: s) (simp_all add: handle_event_speed_pos)

text \<open>
  C6. Starting from the defaults (\<open>warp = 1.0\<close>, \<open>thickness = 0.18\<close>), after any finite
  sequence of input events the stored warp is never below \<open>0.1\<close> and the stored thickness is
  never below \<open>0.01\<close>.
\<close>

theorem clamps_hold_after_events:
  "0.1 \<le> cur_warp (poll_events initial_session evs) \<and>
   0.01 \<le> cur_thickness (poll_events initial_session evs)"
  by (rule poll_events_floors) (simp add: initial_session_def)

text \<open>
  C7. Starting from the default \<open>speed = 6.0\<close>, after any finite sequence of input events
  the stored speed is strictly greater than \<open>0\<close>.
\<close>

theorem speed_stays_positive:
  "0 < cur_speed (poll_events initial_session evs)"
  by (rule poll_events_speed_pos) (simp add: initial_session_def)

text \<open>
  C10. A key-down event whose key is none of the nine recognised keys leaves the whole
  session state as it was: the four parameters, the stored resolution and the running flag.
\<close>

theorem unrecognised_key_changes_nothing:
  assumes "key \<notin> {SDLK_ESCAPE, SDLK_UP, SDLK_DOWN, SDLK_LEFT, SDLK_RIGHT,
                   SDLK_z, SDLK_x, SDLK_c, SDLK_v}"
  shows "handle_event s (SDL_KEYDOWN key) = s"
  using assms by (simp add: on_keydown_def key_stmt_defs)

theorem unrecognised_key_changes_nothing_witness:
  "handle_event initial_session (SDL_KEYDOWN 97) = initial_session"
  using unrecognised_key_changes_nothing [of 97 initial_session]
  by (simp add: keycode_defs)

section \<open>The palette and its period\<close>

text \<open>
  The palette's waves are \<open>sin (6.28318 * \<dots>)\<close>, and \<open>6.28318\<close> is a little less than \<open>2\<pi>\<close>.
  How little is settled by the Maclaurin expansion of the cosine on both sides of \<open>\<pi>/2\<close>.
\<close>

lemma sum_less_14:
  fixes f :: "nat \<Rightarrow> real"
  shows "(\<Sum>m<14. f m) =
    f 0 + f 1 + f 2 + f 3 + f 4 + f 5 + f 6 + f 7 + f 8 + f 9 + f 10 + f 11 + f 12 + f 13"
  by (simp add: eval_nat_numeral)

lemma cos_taylor_sum14:
  "(\<Sum>m<14. cos_coeff m * x ^ m) =
     1 - x^2 / 2 + x^4 / 24 - x^6 / 720 + x^8 / 40320 - x^10 / 3628800 + x^12 / 479001600"
  unfolding sum_less_14 by (simp add: cos_coeff_def fact_numeral)

lemma cos_taylor_bounds:
  assumes "0 < (x::real)"
  shows "\<bar>cos x - (\<Sum>m<14. cos_coeff m * x ^ m)\<bar> \<le> x ^ 14 / fact 14"
proof -
  obtain t where t: "cos x =
      (\<Sum>m<14. cos_coeff m * x ^ m) + (cos (t + 1/2 * real 14 * pi) / fact 14) * x ^ 14"
    using Maclaurin_cos_expansion2 [of x 14] assms by auto
  have "\<bar>cos (t + 1/2 * real 14 * pi) / fact 14 * x ^ 14\<bar> =
      \<bar>cos (t + 1/2 * real 14 * pi)\<bar> * (x ^ 14 / fact 14)"
    using assms by (simp add: abs_mult)
  also have "\<dots> \<le> 1 * (x ^ 14 / fact 14)"
    using assms by (intro mult_right_mono abs_cos_le_one) simp
  finally show ?thesis using t by simp
qed

lemma cos_pos_below_half_pi: "0 < cos (1570795 / 1000000 :: real)"
proof -
  let ?x = "1570795 / 1000000 :: real"
  have "\<bar>cos ?x - (\<Sum>m<14. cos_coeff m * ?x ^ m)\<bar> \<le> ?x ^ 14 / fact 14"
    by (rule cos_taylor_bounds) simp
  then have "(\<Sum>m<14. cos_coeff m * ?x ^ m) - ?x ^ 14 / fact 14 \<le> cos ?x"
    by linarith
  moreover have "0 < (\<Sum>m<14. cos_coeff m * ?x ^ m) - ?x ^ 14 / fact 14"
    unfolding cos_taylor_sum14 by (simp add: fact_numeral power_divide)
  ultimately show ?thesis by linarith
qed

lemma cos_neg_above_half_pi: "cos (15708 / 10000 :: real) < 0"
proof -
  let ?x = "15708 / 10000 :: real"
  have "\<bar>cos ?x - (\<Sum>m<14. cos_coeff m * ?x ^ m)\<bar> \<le> ?x ^ 14 / fact 14"
    by (rule cos_taylor_bounds) simp
  then have "cos ?x \<le> (\<Sum>m<14. cos_coeff m * ?x ^ m) + ?x ^ 14 / fact 14"
    by linarith
  moreover have "(\<Sum>m<14. cos_coeff m * ?x ^ m) + ?x ^ 14 / fact 14 < 0"
    unfolding cos_taylor_sum14 by (simp add: fact_numeral power_divide)
  ultimately show ?thesis by linarith
qed

lemma pi_lower: "3.14159 < pi"
proof (rule ccontr)
  assume "\<not> 3.14159 < pi"
  then have "pi / 2 \<le> 1570795 / 1000000" by simp
  moreover have "(1570795 / 1000000 :: real) \<le> pi" using pi_ge_two by simp
  ultimately have "cos (1570795 / 1000000) \<le> cos (pi / 2)"
    by (intro cos_monotone_0_pi_le) simp_all
  with cos_pos_below_half_pi show False by simp
qed

lemma pi_upper: "pi < 3.1416"
proof (rule ccontr)
  assume "\<not> pi < 3.1416"
  then have "15708 / 10000 \<le> pi / 2" by simp
  moreover have "pi / 2 \<le> pi" by simp
  ultimately have "cos (pi / 2) \<le> cos (15708 / 10000)"
    by (intro cos_monotone_0_pi_le) simp_all
  with cos_neg_above_half_pi show False by simp
qed

lemma sin_lipschitz: "\<bar>sin x - sin y\<bar> \<le> \<bar>x - y\<bar>" for x y :: real
proof -
  have "\<bar>sin x - sin y\<bar> = 2 * \<bar>sin ((x - y) / 2)\<bar> * \<bar>cos ((x + y) / 2)\<bar>"
    by (simp add: sin_diff_sin abs_mult)
  also have "\<dots> \<le> 2 * \<bar>(x - y) / 2\<bar> * 1"
    by (intro mult_mono mult_left_mono abs_sin_x_le_abs_x abs_cos_le_one) simp_all
  finally show ?thesis by simp
qed



section \<open>The loop combinator\<close>

lemma for_loop_length: "length (for_loop n body brk s) \<le> n"
  by (induction n arbitrary: s) (simp_all add: Let_def)

lemma for_loop_successively:
  assumes "\<And>s. P s (body s)"
  shows "successively P (s # for_loop n body brk s)"
proof (induction n arbitrary: s)
  case 0
  then show ?case by simp
next
  case (Suc n)
  show ?case
  proof (cases "brk (body s)")
    case True
    with assms [of s] show ?thesis by (simp add: Let_def)
  next
    case False
    with assms [of s] Suc.IH [of "body s"] show ?thesis by (simp add: Let_def)
  qed
qed

lemma for_loop_break_only_last:
  "list_all (\<lambda>s. \<not> brk s) (butlast (for_loop n body brk s))"
proof (induction n arbitrary: s)
  case 0
  then show ?case by simp
next
  case (Suc n)
  show ?case
  proof (cases "brk (body s)")
    case True
    then show ?thesis by (simp add: Let_def)
  next
    case False
    with Suc.IH [of "body s"] show ?thesis by (simp add: Let_def)
  qed
qed

lemma for_loop_full_or_break:
  "length (for_loop n body brk s) = n \<or> brk (loop_result s (for_loop n body brk s))"
proof (induction n arbitrary: s)
  case 0
  then show ?case by simp
next
  case (Suc n)
  show ?case
  proof (cases "brk (body s)")
    case True
    then show ?thesis by (simp add: Let_def loop_result_def)
  next
    case False
    with Suc.IH [of "body s"] show ?thesis by (auto simp: Let_def loop_result_def)
  qed
qed

lemma for_loop_progress:
  fixes tv :: "'s \<Rightarrow> real"
  assumes "\<And>s. tv s + d \<le> tv (body s)"
  shows "tv s + real (length (for_loop n body brk s)) * d
           \<le> tv (loop_result s (for_loop n body brk s))"
proof (induction n arbitrary: s)
  case 0
  then show ?case by (simp add: loop_result_def)
next
  case (Suc n)
  show ?case
  proof (cases "brk (body s)")
    case True
    then show ?thesis using assms [of s] by (simp add: loop_result_def Let_def)
  next
    case False
    have "tv (body s) + real (length (for_loop n body brk (body s))) * d
        \<le> tv (loop_result (body s) (for_loop n body brk (body s)))"
      by (rule Suc.IH)
    with False assms [of s] show ?thesis
      by (simp add: loop_result_def Let_def algebra_simps)
  qed
qed

lemma for_loop_bounded_progress:
  fixes tv :: "'s \<Rightarrow> real"
  assumes "\<And>s. tv (body s) \<le> tv s + d"
  shows "tv (loop_result s (for_loop n body brk s))
           \<le> tv s + real (length (for_loop n body brk s)) * d"
proof (induction n arbitrary: s)
  case 0
  then show ?case by (simp add: loop_result_def)
next
  case (Suc n)
  show ?case
  proof (cases "brk (body s)")
    case True
    then show ?thesis using assms [of s] by (simp add: loop_result_def Let_def)
  next
    case False
    have "tv (loop_result (body s) (for_loop n body brk (body s)))
        \<le> tv (body s) + real (length (for_loop n body brk (body s))) * d"
      by (rule Suc.IH)
    with False assms [of s] show ?thesis
      by (simp add: loop_result_def Let_def algebra_simps)
  qed
qed

lemma successively_increasing:
  fixes tv :: "'s \<Rightarrow> real"
  assumes "successively (\<lambda>a b. tv a + d \<le> tv b) xs" and "0 < d"
  shows "sorted_wrt (<) (map tv xs)"
proof -
  from assms have "successively (\<lambda>a b. tv a < tv b) xs"
    by (elim successively_mono) simp
  then have "successively (<) (map tv xs)"
    by (simp add: successively_map)
  then show ?thesis
    by (simp add: successively_conv_sorted_wrt)
qed

section \<open>The ray-march loops\<close>

lemma march_step_advance: "fst st + 0.02 \<le> fst (march_step u ro rd st)"
proof -
  obtain rox roy roz rdx rdy rdz t glow accum
    where "ro = (rox, roy, roz)" "rd = (rdx, rdy, rdz)" "st = (t, glow, accum)"
    by (metis prod_cases3)
  then show ?thesis
    by (simp only: march_step_def prod.case Let_def fst_conv)
qed

lemma march_step_chroma_advance: "fst st + 0.015 \<le> fst (march_step_chroma u ro rd st)"
proof -
  obtain rox roy roz rdx rdy rdz t aR aG aB glow
    where "ro = (rox, roy, roz)" "rd = (rdx, rdy, rdz)" "st = (t, aR, aG, aB, glow)"
    by (metis prod_cases5 prod_cases3)
  then show ?thesis
    by (simp only: march_step_chroma_def prod.case Let_def fst_conv)
qed

lemma march_unfold:
  "march u ro rd = for_loop 120 (march_step u ro rd) (\<lambda>s. 100 < fst s) (0, 0, 0)"
  by (simp add: march_def case_prod_unfold)

lemma march_chroma_unfold:
  "march_chroma u ro rd =
     for_loop 140 (march_step_chroma u ro rd) (\<lambda>s. 200 < fst s) (0, 0, 0, 0, 0)"
  by (simp add: march_chroma_def case_prod_unfold)

text \<open>
  C8. For every starting ray and every input the ray-march loop terminates. It runs at most
  its iteration budget (120 steps, 140 in the variant with per-channel accumulators); every
  iteration advances \<open>t\<close> by at least the floor step (0.02, respectively 0.015), so \<open>t\<close> is
  strictly increasing; and no iteration but the last leaves \<open>t\<close> beyond the cutoff (100,
  respectively 200): the loop runs its full budget or ends with \<open>t\<close> beyond the cutoff.
\<close>

theorem ray_march_terminates:
  "length (march u ro rd) \<le> 120 \<and>
   successively (\<lambda>a b. fst a + 0.02 \<le> fst b) ((0, 0, 0) # march u ro rd) \<and>
   sorted_wrt (<) (map fst ((0, 0, 0) # march u ro rd)) \<and>
   list_all (\<lambda>s. fst s \<le> 100) (butlast (march u ro rd)) \<and>
   (length (march u ro rd) = 120 \<or> 100 < fst (loop_result (0, 0, 0) (march u ro rd))) \<and>
   length (march_chroma u ro rd) \<le> 140 \<and>
   successively (\<lambda>a b. fst a + 0.015 \<le> fst b) ((0, 0, 0, 0, 0) # march_chroma u ro rd) \<and>
   sorted_wrt (<) (map fst ((0, 0, 0, 0, 0) # march_chroma u ro rd)) \<and>
   list_all (\<lambda>s. fst s \<le> 200) (butlast (march_chroma u ro rd)) \<and>
   (length (march_chroma u ro rd) = 140 \<or>
    200 < fst (loop_result (0, 0, 0, 0, 0) (march_chroma u ro rd)))"
proof -
  have len: "length (march u ro rd) \<le> 120"
    unfolding march_unfold by (rule for_loop_length)
  have succ: "successively (\<lambda>a b. fst a + 0.02 \<le> fst b) ((0, 0, 0) # march u ro rd)"
    unfolding march_unfold by (rule for_loop_successively) (rule march_step_advance)
  have incr: "sorted_wrt (<) (map fst ((0, 0, 0) # march u ro rd))"
    using succ by (rule successively_increasing) simp
  have "list_all (\<lambda>s. \<not> 100 < fst s) (butlast (march u ro rd))"
    unfolding march_unfold by (rule for_loop_break_only_last)
  then have cut: "list_all (\<lambda>s. fst s \<le> 100) (butlast (march u ro rd))"
    by (simp add: not_less)
  have exit: "length (march u ro rd) = 120 \<or> 100 < fst (loop_result (0, 0, 0) (march u ro rd))"
    unfolding march_unfold by (rule for_loop_full_or_break)
  have len': "length (march_chroma u ro rd) \<le> 140"
    unfolding march_chroma_unfold by (rule for_loop_length)
  have succ': "successively (\<lambda>a b. fst a + 0.015 \<le> fst b)
      ((0, 0, 0, 0, 0) # march_chroma u ro rd)"
    unfolding march_chroma_unfold
    by (rule for_loop_successively) (rule march_step_chroma_advance)
  have incr': "sorted_wrt (<) (map fst ((0, 0, 0, 0, 0) # march_chroma u ro rd))"
    using succ' by (rule successively_increasing) simp
  have "list_all (\<lambda>s. \<not> 200 < fst s) (butlast (march_chroma u ro rd))"
    unfolding march_chroma_unfold by (rule for_loop_break_only_last)
  then have cut': "list_all (\<lambda>s. fst s \<le> 200) (butlast (march_chroma u ro rd))"
    by (simp add: not_less)
  have exit': "length (march_chroma u ro rd) = 140 \<or>
      200 < fst (loop_result (0, 0, 0, 0, 0) (march_chroma u ro rd))"
    unfolding march_chroma_unfold by (rule for_loop_full_or_break)
  from len succ incr cut exit len' succ' incr' cut' exit' show ?thesis
    by (intro conjI)
qed

section \<open>The ray through the centre of the screen\<close>

lemma radius_bounds:
  fixes a b :: real
  assumes "- 1 \<le> a" "a \<le> 1" "- 1 \<le> b" "b \<le> 1"
  shows "- 1.5 \<le> - (1 + 0.3 * a + 0.2 * b) \<and> - (1 + 0.3 * a + 0.2 * b) \<le> - 0.5"
  using assms by simp

lemma tunnelSDF_axis: "- 1.5 \<le> tunnelSDF u (0, 0, z) \<and> tunnelSDF u (0, 0, z) \<le> - 0.5"
proof -
  define A where "A = 6.0 * z + 2.0 * sin (3.0 * z + iTime u * 0.6)"
  define B where "B = 40.0 * (0 + 0.5 * sin (2.0 * z + iTime u))"
  have eq: "tunnelSDF u (0, 0, z) = - (1 + 0.3 * sin A + 0.2 * sin B)"
    by (simp add: Let_def A_def B_def)
  show ?thesis
    unfolding eq by (rule radius_bounds) simp_all
qed

lemma march_step_axis:
  "fst st + 0.25 \<le> fst (march_step u (0, 0, roz) (0, 0, rdz) st) \<and>
   fst (march_step u (0, 0, roz) (0, 0, rdz) st) \<le> fst st + 0.75"
proof -
  obtain t glow accum where st: "st = (t, glow, accum)"
    by (metis prod_cases3)
  define d where "d = tunnelSDF u (0 + 0 * t, 0 + 0 * t, mod_f (roz + rdz * t) 12.566370)"
  have step: "fst (march_step u (0, 0, roz) (0, 0, rdz) st) = t + max 0.02 (0.5 * \<bar>d\<bar>)"
    unfolding st d_def by (simp only: march_step_def prod.case Let_def fst_conv)
  have deq: "d = tunnelSDF u (0, 0, mod_f (roz + rdz * t) 12.566370)"
    unfolding d_def by (simp del: tunnelSDF.simps)
  have "- 1.5 \<le> d \<and> d \<le> - 0.5"
    unfolding deq by (rule tunnelSDF_axis)
  then have "0.25 \<le> max 0.02 (0.5 * \<bar>d\<bar>) \<and> max 0.02 (0.5 * \<bar>d\<bar>) \<le> 0.75"
    by (auto simp: max_def abs_if)
  with step st show ?thesis by simp
qed

lemma length3_axis: "length3 (0, 0, z) = \<bar>z\<bar>"
  by simp

lemma centre_uv: "uv_at (1280, 720) (640, 360) = (1 / 2, 1 / 2)"
  by (simp add: uv_at_def vertex_uv_def ndc_of_window_def)

lemma centre_point: "screen_point default_uniforms (1 / 2, 1 / 2) = (0, 0)"
  by (simp add: default_uniforms_def)

lemma centre_origin: "ray_origin default_uniforms = (0, 0, 0)"
  by (simp add: ray_origin_def default_uniforms_def)

lemma centre_direction: "ray_direction default_uniforms (0, 0) = (0, 0, - 1)"
proof -
  have "ray_direction default_uniforms (0, 0) = normalize3 (0, 0, - 1.5)"
    by (simp add: default_uniforms_def del: normalize3.simps)
  also have "\<dots> = (0, 0, - 1.5 / \<bar>- 1.5\<bar>)"
    by (simp only: normalize3.simps length3_axis) simp
  finally show ?thesis by simp
qed

lemma centre_travel:
  "30 \<le> fst (march_result default_uniforms (uv_at (1280, 720) (640, 360))) \<and>
   fst (march_result default_uniforms (uv_at (1280, 720) (640, 360))) \<le> 90"
proof -
  let ?body = "march_step default_uniforms (0, 0, 0) (0, 0, - 1)"
  let ?xs = "for_loop 120 ?body (\<lambda>s. 100 < fst s) (0, 0, 0)"
  let ?t = "fst (loop_result (0, 0, 0) ?xs)"
  have res: "march_result default_uniforms (uv_at (1280, 720) (640, 360)) =
      loop_result (0, 0, 0) ?xs"
    by (simp only: march_result_def centre_uv centre_point centre_origin centre_direction
        march_unfold) simp
  have lo: "fst (0::real, 0::real, 0::real) + real (length ?xs) * 0.25 \<le> ?t"
    by (rule for_loop_progress) (use march_step_axis in blast)
  have hi: "?t \<le> fst (0::real, 0::real, 0::real) + real (length ?xs) * 0.75"
    by (rule for_loop_bounded_progress) (use march_step_axis in blast)
  have len: "length ?xs \<le> 120"
    by (rule for_loop_length)
  have "length ?xs = 120 \<or> 100 < ?t"
    by (rule for_loop_full_or_break)
  then have "30 \<le> ?t"
  proof
    assume "length ?xs = 120"
    with lo show ?thesis by simp
  next
    assume "100 < ?t"
    then show ?thesis by simp
  qed
  moreover from hi len have "?t \<le> 90"
    by simp
  ultimately show ?thesis
    unfolding res by simp
qed

lemma depth_of_exp: "0 \<le> t \<Longrightarrow> depth_of t = exp (- 0.02 * t)"
proof -
  assume "0 \<le> t"
  then have "exp (- 0.02 * t) \<le> 1" by simp
  moreover have "0 \<le> exp (- 0.02 * t)" by simp
  ultimately show ?thesis by (simp add: depth_of_def clamp_def)
qed

lemma exp_six_tenths: "exp (- 0.6 :: real) < 0.57"
proof -
  have "1 + 0.6 + 0.6\<^sup>2 / 2 \<le> exp (0.6 :: real)"
    by (rule exp_lower_Taylor_quadratic) simp
  then have "1.78 \<le> exp (0.6 :: real)"
    by (simp add: power2_eq_square)
  then have "inverse (exp (0.6 :: real)) \<le> inverse 1.78"
    by (intro le_imp_inverse_le) simp_all
  then show ?thesis by (simp add: exp_minus)
qed

lemma centre_depth:
  "exp (- 1.8) \<le> depth_circles default_uniforms (uv_at (1280, 720) (640, 360)) \<and>
   depth_circles default_uniforms (uv_at (1280, 720) (640, 360)) \<le> exp (- 0.6)"
proof -
  let ?t = "fst (march_result default_uniforms (uv_at (1280, 720) (640, 360)))"
  from centre_travel have t: "30 \<le> ?t" "?t \<le> 90" by simp_all
  then have "depth_circles default_uniforms (uv_at (1280, 720) (640, 360)) = exp (- 0.02 * ?t)"
    unfolding depth_circles_def by (intro depth_of_exp) simp
  moreover from t have "- 1.8 \<le> - 0.02 * ?t" "- 0.02 * ?t \<le> - 0.6" by simp_all
  ultimately show ?thesis by simp
qed

section \<open>The range of the colours\<close>

lemma pow_clamp_unit: "0 \<le> pow (clamp x 0.0 1.0) 0.8 \<and> pow (clamp x 0.0 1.0) 0.8 \<le> 1"
proof -
  have "0 \<le> clamp x 0.0 1.0" "clamp x 0.0 1.0 \<le> 1"
    by (simp_all add: clamp_def)
  then show ?thesis
    unfolding pow_def by (simp add: powr_le1)
qed

lemma gamma_valid: "valid_colour (Inr (gamma c))"
proof -
  obtain r g b where "c = (r, g, b)" by (metis prod_cases3)
  then show ?thesis
    using pow_clamp_unit [of r] pow_clamp_unit [of g] pow_clamp_unit [of b]
    by (simp add: valid_colour_def)
qed

lemma main_circles_valid:
  assumes "snd (iResolution u) \<noteq> 0" and "thickness u \<noteq> 0"
  shows "valid_colour (main_circles u uv)"
  using assms by (simp add: main_circles_def gamma_valid)

section \<open>The ray through the centre of the fragment next to the centre\<close>

text \<open>
  The fragment that covers the window coordinates from \<open>(640, 360)\<close> to \<open>(641, 361)\<close> has
  its centre at \<open>(640.5, 360.5)\<close>, where \<open>p = (1/720, 1/720)\<close>. Its ray stays within
  \<open>0.14\<close> of the axis for as long as \<open>t \<le> 100\<close>, so every step is at least \<open>0.18\<close>
  long.
\<close>

lemma for_loop_progress_inv:
  fixes tv :: "'s \<Rightarrow> real"
  assumes step: "\<And>s. I s \<Longrightarrow> \<not> brk s \<Longrightarrow> tv s + d \<le> tv (body s)"
    and inv: "\<And>s. I s \<Longrightarrow> I (body s)"
  shows "I s \<Longrightarrow> \<not> brk s \<Longrightarrow>
    tv s + real (length (for_loop n body brk s)) * d
      \<le> tv (loop_result s (for_loop n body brk s))"
proof (induction n arbitrary: s)
  case 0
  then show ?case by (simp add: loop_result_def)
next
  case (Suc n)
  from Suc.prems have adv: "tv s + d \<le> tv (body s)" by (rule step)
  from Suc.prems(1) have I': "I (body s)" by (rule inv)
  show ?case
  proof (cases "brk (body s)")
    case True
    with adv show ?thesis by (simp add: loop_result_def Let_def)
  next
    case False
    with I' have "tv (body s) + real (length (for_loop n body brk (body s))) * d
        \<le> tv (loop_result (body s) (for_loop n body brk (body s)))"
      by (rule Suc.IH)
    with False adv show ?thesis
      by (simp add: loop_result_def Let_def algebra_simps)
  qed
qed

lemma tunnelSDF_radius:
  "tunnelSDF u (x, y, z) \<le> length2 (x, y) - 0.5"
proof -
  define A where "A = 6.0 * z + 2.0 * sin (3.0 * z + iTime u * 0.6)"
  define B where "B = 40.0 * (length2 (x, y) + 0.5 * sin (2.0 * z + iTime u))"
  have eq: "tunnelSDF u (x, y, z) = length2 (x, y) + - (1 + 0.3 * sin A + 0.2 * sin B)"
    by (simp add: Let_def A_def B_def del: length2.simps)
  have "- (1 + 0.3 * sin A + 0.2 * sin B) \<le> - 0.5"
    by (rule radius_bounds [THEN conjunct2]) simp_all
  then show ?thesis
    unfolding eq by simp
qed

lemma near_axis_step:
  fixes px py :: real
  assumes p: "px * px + py * py \<le> 4 / 1000000"
    and t: "0 \<le> t" "t \<le> 100"
  shows "t + 0.18 \<le> fst (march_step u (0, 0, roz) (normalize3 (px, py, - 1.5)) (t, glow, accum))"
proof -
  define L where "L = length3 (px, py, - 1.5)"
  have Lpos: "1.5 \<le> L"
    unfolding L_def length3.simps
    by (rule real_le_rsqrt) (simp add: power2_eq_square)
  define x where "x = 0 + px / L * t"
  define y where "y = 0 + py / L * t"
  define z where "z = mod_f (roz + - 1.5 / L * t) 12.566370"
  define d where "d = tunnelSDF u (x, y, z)"
  have step: "fst (march_step u (0, 0, roz) (normalize3 (px, py, - 1.5)) (t, glow, accum)) =
      t + max 0.02 (0.5 * \<bar>d\<bar>)"
    unfolding d_def x_def y_def z_def L_def
    by (simp only: march_step_def normalize3.simps prod.case Let_def fst_conv)
  have "x * x + y * y = (px * px) * (t * t) / (L * L) + (py * py) * (t * t) / (L * L)"
    by (simp add: x_def y_def mult_ac)
  also have "\<dots> = ((px * px) * (t * t) + (py * py) * (t * t)) / (L * L)"
    by (rule add_divide_distrib [symmetric])
  also have "\<dots> = (px * px + py * py) * (t * t) / (L * L)"
    by (simp only: distrib_right)
  also have "\<dots> \<le> (4 / 1000000) * (100 * 100) / (1.5 * 1.5)"
  proof -
    have "t * t \<le> 100 * 100" using t by (intro mult_mono) simp_all
    moreover have "0 \<le> px * px + py * py" by simp
    ultimately have "(px * px + py * py) * (t * t) \<le> (4 / 1000000) * (100 * 100)"
      using p t by (intro mult_mono) simp_all
    moreover have "1.5 * 1.5 \<le> L * L" using Lpos by (intro mult_mono) simp_all
    ultimately show ?thesis
      by (intro frac_le) simp_all
  qed
  also have "\<dots> \<le> 0.14\<^sup>2" by (simp add: power2_eq_square)
  finally have r: "length2 (x, y) \<le> 0.14"
    unfolding length2.simps by (intro real_le_lsqrt) simp_all
  have "d \<le> length2 (x, y) - 0.5"
    unfolding d_def by (rule tunnelSDF_radius)
  with r have "d \<le> - 0.36" by simp
  then have "0.18 \<le> max 0.02 (0.5 * \<bar>d\<bar>)"
    by (simp add: max_def abs_if)
  with step show ?thesis by simp
qed

lemma march_step_nonneg: "0 \<le> fst st \<Longrightarrow> 0 \<le> fst (march_step u ro rd st)"
  using march_step_advance [of st u ro rd] by simp

lemma fragment_centre_depth:
  "depth_circles default_uniforms (uv_at (1280, 720) (640.5, 360.5)) \<le> exp (- 0.432)"
proof -
  let ?rd = "normalize3 (1 / 720, 1 / 720, - 1.5)"
  let ?body = "march_step default_uniforms (0, 0, 0) ?rd"
  let ?xs = "for_loop 120 ?body (\<lambda>s. 100 < fst s) (0, 0, 0)"
  let ?t = "fst (loop_result (0, 0, 0) ?xs)"
  have uv: "uv_at (1280, 720) (640.5, 360.5) = (1281 / 2560, 721 / 1440)"
    by (simp add: uv_at_def vertex_uv_def ndc_of_window_def)
  have pt: "screen_point default_uniforms (1281 / 2560, 721 / 1440) = (1 / 720, 1 / 720)"
    by (simp add: default_uniforms_def)
  have dir: "ray_direction default_uniforms (1 / 720, 1 / 720) = ?rd"
    by (simp add: default_uniforms_def del: normalize3.simps)
  have res: "march_result default_uniforms (uv_at (1280, 720) (640.5, 360.5)) =
      loop_result (0, 0, 0) ?xs"
    by (simp only: march_result_def uv pt centre_origin dir march_unfold)
       (simp del: normalize3.simps)
  have adv: "fst s + 0.18 \<le> fst (?body s)" if "0 \<le> fst s" "\<not> 100 < fst s" for s
  proof -
    obtain t glow accum where s: "s = (t, glow, accum)" by (metis prod_cases3)
    with that have "0 \<le> t" "t \<le> 100" by simp_all
    then have "t + 0.18 \<le> fst (?body (t, glow, accum))"
      by (intro near_axis_step) simp_all
    with s show ?thesis by simp
  qed
  have lo: "fst (0::real, 0::real, 0::real) + real (length ?xs) * 0.18 \<le> ?t"
  proof (rule for_loop_progress_inv [where I = "\<lambda>s. 0 \<le> fst s"])
    show "fst s + 0.18 \<le> fst (?body s)" if "0 \<le> fst s" "\<not> 100 < fst s" for s
      using that by (rule adv)
    show "0 \<le> fst (?body s)" if "0 \<le> fst s" for s
      using that by (rule march_step_nonneg)
  qed simp_all
  have "length ?xs = 120 \<or> 100 < ?t"
    by (rule for_loop_full_or_break)
  then have t: "21.6 \<le> ?t"
  proof
    assume "length ?xs = 120"
    with lo show ?thesis by simp
  next
    assume "100 < ?t"
    then show ?thesis by simp
  qed
  then have "depth_circles default_uniforms (uv_at (1280, 720) (640.5, 360.5)) = exp (- 0.02 * ?t)"
    unfolding depth_circles_def res by (intro depth_of_exp) simp
  moreover from t have "- 0.02 * ?t \<le> - 0.432" by simp
  ultimately show ?thesis by simp
qed

lemma exp_fragment_centre: "exp (- 0.432 :: real) < 0.66"
proof -
  have "1 + 0.432 + 0.432\<^sup>2 / 2 \<le> exp (0.432 :: real)"
    by (rule exp_lower_Taylor_quadratic) simp
  then have "1.52 \<le> exp (0.432 :: real)"
    by (simp add: power2_eq_square)
  then have "inverse (exp (0.432 :: real)) \<le> inverse 1.52"
    by (intro le_imp_inverse_le) simp_all
  then show ?thesis by (simp add: exp_minus)
qed

section \<open>The centre pixel at time zero\<close>

text \<open>
  C9, as the spec states it, fails: with the default parameters at time \<open>0\<close> and resolution
  \<open>1280 \<times> 720\<close>, the depth factor of the centre pixel \<open>(640, 360)\<close> is below \<open>0.57\<close>, far
  from \<open>1\<close>. The ray runs along the tunnel's axis, where every step is at least \<open>0.25\<close>
  long, so the loop leaves \<open>t \<ge> 30\<close>. Read as the fragment whose centre is
  \<open>(640.5, 360.5)\<close>, the pixel has a depth factor below \<open>0.66\<close>.
\<close>

theorem centre_depth_counterexample:
  "depth_circles default_uniforms (uv_at (1280, 720) (640, 360)) < 0.57 \<and>
   depth_circles default_uniforms (uv_at (1280, 720) (640.5, 360.5)) < 0.66"
  using centre_depth exp_six_tenths fragment_centre_depth exp_fragment_centre by simp

text \<open>
  C9, amended. With \<open>time = 0\<close>, the default parameters and resolution \<open>1280 \<times> 720\<close>, the
  centre pixel \<open>(640, 360)\<close> has a depth factor between \<open>exp (-1.8)\<close> and \<open>exp (-0.6)\<close>
  (about \<open>0.17\<close> to \<open>0.55\<close>, a marked fog attenuation), and its colour has every channel in
  \<open>[0, 1]\<close>.
\<close>

theorem centre_pixel_colour:
  "exp (- 1.8) \<le> depth_circles default_uniforms (uv_at (1280, 720) (640, 360)) \<and>
   depth_circles default_uniforms (uv_at (1280, 720) (640, 360)) \<le> exp (- 0.6) \<and>
   valid_colour (main_circles default_uniforms (uv_at (1280, 720) (640, 360)))"
proof -
  have "valid_colour (main_circles default_uniforms (uv_at (1280, 720) (640, 360)))"
    by (rule main_circles_valid) (simp_all add: default_uniforms_def)
  with centre_depth show ?thesis by simp
qed

section \<open>Fatal start-up errors\<close>

lemma startup_failure:
  assumes "gl_names_nonzero env"
    and "\<not> compile_status env GL_VERTEX_SHADER \<or> \<not> compile_status env GL_FRAGMENT_SHADER \<or>
         \<not> link_status env"
  shows "\<exists>err. err \<noteq> [] \<and> startup env = (err, Inl 1)"
  using assms
  by (auto simp: startup_def compileShader_def linkProgram_def gl_names_nonzero_def)

lemma compile_failure_message:
  assumes "sdl_init_ok env" "window_ok env" "context_ok env" "glad_ok env"
    and "\<not> compile_status env ty"
  shows "''Shader compile error: '' @ take 4095 (shader_info_log env ty) @ ''\<newline>''
           \<in> set (fst (startup env))"
  using assms
  by (cases ty) (auto simp: startup_def compileShader_def linkProgram_def)

lemma link_failure_message:
  assumes "sdl_init_ok env" "window_ok env" "context_ok env" "glad_ok env"
    and "gl_names_nonzero env"
    and "compile_status env GL_VERTEX_SHADER" "compile_status env GL_FRAGMENT_SHADER"
    and "\<not> link_status env"
  shows "fst (startup env) =
           [''Program link error: '' @ take 4095 (program_info_log env) @ ''\<newline>'']"
  using assms
  by (auto simp: startup_def compileShader_def linkProgram_def gl_names_nonzero_def)

text \<open>
  C3, as the spec states it, fails for the third kind of error. In the environment of
  \<^verbatim>\<open>shader3-tunnel-DEV-NOT-WORKING.cpp\<close>, where none of the six names that the host looks up
  is an active uniform, every location is \<open>-1\<close>, nothing is written to \<^verbatim>\<open>std::cerr\<close>, and
  the loop is entered: its first iteration dispatches a frame, which no upload reaches.
\<close>

theorem unresolved_uniforms_enter_loop:
  "glGetUniformLocation dev_tunnel_env ''iTime'' = - 1 \<and>
   glGetUniformLocation dev_tunnel_env ''iResolution'' = - 1 \<and>
   stderr (run_main dev_tunnel_env [([], 0)]) = [] \<and>
   exit_code (run_main dev_tunnel_env [([], 0)]) = None \<and>
   frames (run_main dev_tunnel_env [([], 0)]) = [[]]"
  by (simp add: run_main_def startup_def compileShader_def linkProgram_def
      glGetUniformLocation_def dev_tunnel_env_def working_env_def dispatch_def
      poll_events_def initial_session_def)

text \<open>
  C3, amended. Every compile failure and every link failure is reported with diagnostic
  text and prevents the process from ever entering the session loop: \<^verbatim>\<open>main\<close> returns \<open>1\<close>
  and no frame is dispatched.
\<close>

theorem compile_and_link_failures_abort:
  assumes "gl_names_nonzero env"
    and "\<not> compile_status env GL_VERTEX_SHADER \<or> \<not> compile_status env GL_FRAGMENT_SHADER \<or>
         \<not> link_status env"
  shows "stderr (run_main env input) \<noteq> [] \<and>
         exit_code (run_main env input) = Some 1 \<and>
         frames (run_main env input) = []"
proof -
  from startup_failure [OF assms] obtain err where "err \<noteq> []" "startup env = (err, Inl 1)"
    by blast
  then show ?thesis by (simp add: run_main_def)
qed

theorem compile_and_link_failures_abort_witness:
  "stderr (run_main broken_shader_env [([], 0)]) \<noteq> [] \<and>
   exit_code (run_main broken_shader_env [([], 0)]) = Some 1 \<and>
   frames (run_main broken_shader_env [([], 0)]) = []"
proof -
  have names: "gl_names_nonzero broken_shader_env"
    by (simp add: gl_names_nonzero_def broken_shader_env_def working_env_def)
  have failure: "\<not> compile_status broken_shader_env GL_VERTEX_SHADER \<or>
      \<not> compile_status broken_shader_env GL_FRAGMENT_SHADER \<or>
      \<not> link_status broken_shader_env"
    by (simp add: broken_shader_env_def working_env_def)
  show ?thesis
    by (rule compile_and_link_failures_abort [OF names failure])
qed

section \<open>The blue channel of the plain polar variant\<close>

lemma polar_startup:
  "startup polar_env =
     ([], Inr \<lparr>locTime = 1, locRes = 0, locSpeed = - 1, locWarp = - 1,
              locThickness = - 1, locColorShift = - 1\<rparr>)"
  by (simp add: startup_def compileShader_def linkProgram_def glGetUniformLocation_def
      polar_env_def working_env_def)

lemma polar_locations:
  "glGetUniformLocation polar_env ''iResolution'' = 0 \<and>
   glGetUniformLocation polar_env ''iTime'' = 1"
  by (simp add: glGetUniformLocation_def polar_env_def working_env_def)

lemma polar_first_frame:
  "frames (run_main polar_env [([], t)]) = [[(1, [t]), (0, [1280, 720])]]"
  by (simp add: run_main_def polar_startup dispatch_def initial_session_def poll_events_def)

lemma run_polar_first_frame:
  "run_polar [([], t)] fragCoord = [main_polar (1280, 720) t fragCoord]"
  by (simp add: run_polar_def polar_first_frame polar_locations uniform2_after_def
      uniform1_after_def)

lemma polar_radius:
  "0.155 \<le> length2 (79 / 720, 79 / 720) \<and> length2 (79 / 720, 79 / 720) \<le> 0.156"
proof
  show "0.155 \<le> length2 (79 / 720, 79 / 720)"
    unfolding length2.simps by (rule real_le_rsqrt) (simp add: power2_eq_square)
  show "length2 (79 / 720, 79 / 720) \<le> 0.156"
    unfolding length2.simps by (rule real_le_lsqrt) (simp_all add: power2_eq_square)
qed

lemma polar_angle: "atan2 (79 / 720) (79 / 720) = pi / 4"
  by (simp add: atan2_def arctan_one)

lemma sin_near_half_pi:
  fixes x :: real
  assumes "1.548 \<le> x" and "x \<le> 1.558"
  shows "0.97 \<le> sin x"
proof -
  have "\<bar>sin x - sin (pi / 2)\<bar> \<le> \<bar>x - pi / 2\<bar>"
    by (rule sin_lipschitz)
  moreover have "\<bar>x - pi / 2\<bar> \<le> 0.03"
    using assms pi_lower pi_upper by (simp add: abs_le_iff)
  ultimately show ?thesis by simp
qed

lemma sin_past_three_half_pi: "sin (6 * (pi / 4) + 1 / 500) \<le> - 0.998"
proof -
  have "\<bar>sin (6 * (pi / 4) + 1 / 500) - sin (3 / 2 * pi)\<bar>
      \<le> \<bar>(6 * (pi / 4) + 1 / 500) - 3 / 2 * pi\<bar>"
    by (rule sin_lipschitz)
  moreover have "\<bar>(6 * (pi / 4) + 1 / 500) - 3 / 2 * pi\<bar> = 1 / 500"
    by simp
  ultimately have "\<bar>sin (6 * (pi / 4) + 1 / 500) - (- 1)\<bar> \<le> 1 / 500"
    by (simp only: sin_3over2_pi)
  then have "sin (6 * (pi / 4) + 1 / 500) - (- 1) \<le> 1 / 500"
    by (rule order_trans [OF abs_ge_self])
  then show ?thesis by simp
qed

lemma polar_product:
  fixes rings stripes :: real
  assumes "0.97 \<le> rings" and "stripes \<le> - 0.998"
  shows "1.25 < 0.8 - 0.5 * (rings * stripes)"
proof -
  from assms have "rings * stripes \<le> 0.97 * stripes"
    by (intro mult_right_mono_neg) simp_all
  also from assms have "\<dots> \<le> 0.97 * (- 0.998)"
    by (intro mult_left_mono) simp_all
  finally show ?thesis by simp
qed

lemma polar_blue:
  "1.25 < snd (snd (polar_colour (1280, 720) (1 / 1000) (679.5, 399.5)))"
proof -
  define r where "r = length2 (79 / 720, 79 / 720)"
  have blue: "snd (snd (polar_colour (1280, 720) (1 / 1000) (679.5, 399.5))) =
      0.8 - 0.5 * (sin (10 * r - 1 / 500) * sin (6 * (pi / 4) + 1 / 500))"
    by (simp add: polar_colour_def Let_def polar_angle r_def del: length2.simps)
  have "1.548 \<le> 10 * r - 1 / 500" "10 * r - 1 / 500 \<le> 1.558"
    using polar_radius by (simp_all add: r_def del: length2.simps)
  then have "0.97 \<le> sin (10 * r - 1 / 500)"
    by (rule sin_near_half_pi)
  then have "1.25 < 0.8 - 0.5 * (sin (10 * r - 1 / 500) * sin (6 * (pi / 4) + 1 / 500))"
    using sin_past_three_half_pi by (rule polar_product)
  then show ?thesis by (simp only: blue)
qed

text \<open>
  C1. For every resolution with positive width and height, every time, every pixel and every
  parameter set in the clamped ranges, the colour that \<^verbatim>\<open>main\<close> writes has its red, green
  and blue channel in \<open>[0, 1]\<close>. The shader of \<^verbatim>\<open>shader1-circles.cpp\<close> clamps before its
  gamma curve (\<open>main_circles_valid\<close>); the plain polar variant writes its colour with no
  clamp. In the first frame of a run of that variant, one millisecond after the start and
  at the window's first size \<open>1280 \<times> 720\<close>, the fragment with centre \<open>(679.5, 399.5)\<close> gets
  a blue channel above \<open>1.25\<close>.
\<close>

theorem polar_blue_channel_out_of_range:
  "run_polar [([], 1 / 1000)] (679.5, 399.5) =
     [Inr (polar_colour (1280, 720) (1 / 1000) (679.5, 399.5))] \<and>
   1.25 < snd (snd (polar_colour (1280, 720) (1 / 1000) (679.5, 399.5))) \<and>
   \<not> valid_colour (Inr (polar_colour (1280, 720) (1 / 1000) (679.5, 399.5)))"
proof -
  have "run_polar [([], 1 / 1000)] (679.5, 399.5) =
      [Inr (polar_colour (1280, 720) (1 / 1000) (679.5, 399.5))]"
    by (simp add: run_polar_first_frame main_polar_def)
  moreover have "\<not> valid_colour (Inr (polar_colour (1280, 720) (1 / 1000) (679.5, 399.5)))"
    using polar_blue
    by (cases "polar_colour (1280, 720) (1 / 1000) (679.5, 399.5)")
       (simp add: valid_colour_def)
  ultimately show ?thesis using polar_blue by simp
qed

section \<open>The resolution that the shader of shader3-tunnel-DEV-NOT-WORKING.cpp receives\<close>

lemma safeResolution_guard:
  "safeResolution (0, 0) = (1280, 720) \<and> 0 < snd (safeResolution res)"
  by (simp add: safeResolution_def not_le)

lemma dev_tunnel_startup:
  "startup dev_tunnel_env =
     ([], Inr \<lparr>locTime = - 1, locRes = - 1, locSpeed = - 1, locWarp = - 1,
              locThickness = - 1, locColorShift = - 1\<rparr>)"
  by (simp add: startup_def compileShader_def linkProgram_def glGetUniformLocation_def
      dev_tunnel_env_def working_env_def)

lemma dev_tunnel_locations:
  "glGetUniformLocation dev_tunnel_env ''uResolution'' = 0 \<and>
   glGetUniformLocation dev_tunnel_env ''uTime'' = 1"
  by (simp add: glGetUniformLocation_def dev_tunnel_env_def working_env_def)

lemma dispatch_nowhere:
  "dispatch \<lparr>locTime = - 1, locRes = - 1, locSpeed = - 1, locWarp = - 1,
             locThickness = - 1, locColorShift = - 1\<rparr> s t = []"
  by (simp add: dispatch_def)

lemma session_loop_nowhere:
  "set (fst (session_loop \<lparr>locTime = - 1, locRes = - 1, locSpeed = - 1, locWarp = - 1,
             locThickness = - 1, locColorShift = - 1\<rparr> s input)) \<subseteq> {[]}"
proof (induction input arbitrary: s)
  case Nil
  then show ?case by simp
next
  case (Cons it input)
  obtain evs t where it: "it = (evs, t)" by (cases it)
  show ?case
    using Cons.IH [of "poll_events s evs"]
    by (auto simp: it dispatch_nowhere split: prod.splits)
qed

lemma dev_tunnel_frames: "set (frames (run_main dev_tunnel_env input)) \<subseteq> {[]}"
  using session_loop_nowhere [of initial_session input]
  by (auto simp: run_main_def dev_tunnel_startup split: prod.splits)

lemma draw_no_uploads:
  "set fs \<subseteq> {[]} \<Longrightarrow>
   draw shader locR locT res time fs fragCoord = map (\<lambda>f. shader res time fragCoord) fs"
  by (induction fs) (simp_all add: uniform2_after_def uniform1_after_def)

lemma main_dev_tunnel_zero:
  assumes "0 < fx" and "0 < fy"
  shows "main_dev_tunnel (0, 0) time (fx, fy) = (PInf, PInf, Fin 0)"
  using assms by (simp add: main_dev_tunnel_def div_x_def Let_def)

lemma run_dev_tunnel_infinite:
  assumes "0 < fx" and "0 < fy"
  shows "set (run_dev_tunnel input (fx, fy)) \<subseteq> {(PInf, PInf, Fin 0)}"
  unfolding run_dev_tunnel_def draw_no_uploads [OF dev_tunnel_frames]
  using main_dev_tunnel_zero [OF assms] by auto

text \<open>
  C2. Evaluated with resolution \<open>(0, 0)\<close>, the shader performs no division by zero: a
  fallback resolution is substituted, and the result is a defined colour with no NaN or Inf
  channel. \<^verbatim>\<open>shader5-45single.cpp\<close> has the guard (\<open>safeResolution_guard\<close>). The shader of
  \<^verbatim>\<open>shader3-tunnel-DEV-NOT-WORKING.cpp\<close> has none, and it is the one that receives the
  resolution \<open>(0, 0)\<close>: its host writes no uniform of its program, so \<^verbatim>\<open>uResolution\<close> keeps
  its initial zero, and in the first frame of a run the fragment with centre \<open>(0.5, 0.5)\<close>
  gets an infinite red and an infinite green channel.
\<close>

theorem dev_tunnel_zero_resolution_divides:
  "run_dev_tunnel [([], 1 / 1000)] (0.5, 0.5) = [(PInf, PInf, Fin 0)]"
  by (simp add: run_dev_tunnel_def run_main_def dev_tunnel_startup dispatch_nowhere
      dev_tunnel_locations uniform2_after_def uniform1_after_def main_dev_tunnel_def
      div_x_def initial_session_def poll_events_def)

end
